theory Spec2Isabelle
  imports Complex_Main
begin

section \<open>JavaScript values used by the converter\<close>

text \<open>
  A JavaScript number is an IEEE 754 double: \<open>NaN\<close>, the two infinities, the two zeros
  (\<open>Fin 0\<close> is the positive one, \<open>NegZero\<close> the negative one) and the finite values, kept
  as the rational they denote. Every operation computes the exact rational result and
  rounds it to the nearest double, ties to the even significand, as the standard does.
\<close>

datatype jsnum = NaN | NegInf | Fin rat | NegZero | PosInf

text \<open>\<open>ToBoolean\<close> on a number: \<open>NaN\<close> and the zeros are falsy.\<close>

definition truthy :: "jsnum \<Rightarrow> bool" where
  "truthy n =
     (case n of NaN \<Rightarrow> False | NegInf \<Rightarrow> True | Fin r \<Rightarrow> r \<noteq> 0 | NegZero \<Rightarrow> False
      | PosInf \<Rightarrow> True)"

text \<open>The comparison \<open>n <= 0\<close>: every comparison with \<open>NaN\<close> is false.\<close>

definition lessEqZero :: "jsnum \<Rightarrow> bool" where
  "lessEqZero n =
     (case n of NaN \<Rightarrow> False | NegInf \<Rightarrow> True | Fin r \<Rightarrow> r \<le> 0 | NegZero \<Rightarrow> True
      | PosInf \<Rightarrow> False)"

subsection \<open>Rounding to the nearest double\<close>

definition pow2 :: "int \<Rightarrow> rat" where
  "pow2 e = (if 0 \<le> e then 2 ^ nat e else 1 / 2 ^ nat (- e))"

text \<open>
  The binary exponent of a magnitude \<open>m\<close>, kept in the range of the doubles: the greatest
  \<open>e\<close> from -1022 to 1023 with \<open>2 ^ e \<le> m\<close>, found by bisection, and -1022 (the exponent
  of the subnormal values) when there is none.
\<close>

definition binaryExponent :: "rat \<Rightarrow> int" where
  "binaryExponent m =
     foldl (\<lambda>e step. if e + step \<le> 1023 \<and> pow2 (e + step) \<le> m then e + step else e)
       (- 1022) [1024, 512, 256, 128, 64, 32, 16, 8, 4, 2, 1]"

definition roundHalfEven :: "rat \<Rightarrow> int" where
  "roundHalfEven x =
     (let f = \<lfloor>x\<rfloor>; d = x - of_int f
      in if d < 1 / 2 then f else if 1 / 2 < d then f + 1 else if even f then f else f + 1)"

definition signedZero :: "bool \<Rightarrow> jsnum" where
  "signedZero neg = (if neg then NegZero else Fin 0)"

definition signedInf :: "bool \<Rightarrow> jsnum" where
  "signedInf neg = (if neg then NegInf else PosInf)"

text \<open>
  The double nearest to the rational \<open>q\<close>: the magnitude is rounded to a multiple of the
  spacing of the doubles at its exponent (53 significant bits); a result of zero keeps the
  sign of \<open>q\<close>, and a result of \<open>2 ^ 1024\<close> or more is an infinity.
\<close>

definition roundDouble :: "rat \<Rightarrow> jsnum" where
  "roundDouble q =
     (let neg = q < 0;
          m = \<bar>q\<bar>;
          quantum = pow2 (binaryExponent m - 52);
          v = of_int (roundHalfEven (m / quantum)) * quantum
      in if v = 0 then signedZero neg
         else if pow2 1024 \<le> v then signedInf neg
         else Fin (if neg then - v else v))"

text \<open>Unary minus.\<close>

definition negate :: "jsnum \<Rightarrow> jsnum" where
  "negate n =
     (case n of NaN \<Rightarrow> NaN | NegInf \<Rightarrow> PosInf
      | Fin r \<Rightarrow> if r = 0 then NegZero else Fin (- r)
      | NegZero \<Rightarrow> Fin 0 | PosInf \<Rightarrow> NegInf)"

text \<open>The sign bit, and the classes of values the division distinguishes.\<close>

definition isNegative :: "jsnum \<Rightarrow> bool" where
  "isNegative n =
     (case n of NaN \<Rightarrow> False | NegInf \<Rightarrow> True | Fin r \<Rightarrow> r < 0 | NegZero \<Rightarrow> True
      | PosInf \<Rightarrow> False)"

definition isInfinite :: "jsnum \<Rightarrow> bool" where
  "isInfinite n = (n = PosInf \<or> n = NegInf)"

definition isZero :: "jsnum \<Rightarrow> bool" where
  "isZero n = (n = Fin 0 \<or> n = NegZero)"

definition finiteValue :: "jsnum \<Rightarrow> rat" where
  "finiteValue n = (case n of Fin r \<Rightarrow> r | _ \<Rightarrow> 0)"

text \<open>
  The operator \<open>/\<close> on numbers. \<open>NaN\<close> operands, infinity by infinity and zero by zero
  give \<open>NaN\<close>; otherwise the sign of the result is the exclusive or of the signs of the
  operands, an infinite dividend or a zero divisor gives an infinity, an infinite divisor
  or a zero dividend gives a zero, and two finite values that are not zero give their
  exact quotient rounded to the nearest double.
\<close>

definition jsdiv :: "jsnum \<Rightarrow> jsnum \<Rightarrow> jsnum" where
  "jsdiv x y =
     (let neg = (isNegative x \<noteq> isNegative y)
      in if x = NaN \<or> y = NaN then NaN
         else if isInfinite x then (if isInfinite y then NaN else signedInf neg)
         else if isInfinite y then signedZero neg
         else if isZero y then (if isZero x then NaN else signedInf neg)
         else if isZero x then signedZero neg
         else roundDouble (finiteValue x / finiteValue y))"

subsection \<open>parseFloat\<close>

text \<open>
  \<open>parseFloat\<close> skips leading white space and reads the longest prefix that is a
  \<open>StrDecimalLiteral\<close>: an optional sign, then \<open>Infinity\<close> or decimal digits with an
  optional fraction and an optional exponent. Whatever follows the prefix is ignored; with
  no such prefix the result is \<open>NaN\<close>. The result is the double nearest to the decimal
  value of the prefix, so a value too small for a double is a zero and one too large an
  infinity.
\<close>

definition isWhiteSpace :: "char \<Rightarrow> bool" where
  "isWhiteSpace c = (of_char c \<in> {9::nat, 10, 11, 12, 13, 32, 160})"

definition isDigit :: "char \<Rightarrow> bool" where
  "isDigit c = (48 \<le> (of_char c :: nat) \<and> (of_char c :: nat) \<le> 57)"

definition digitsValue :: "string \<Rightarrow> nat" where
  "digitsValue ds = foldl (\<lambda>acc c. 10 * acc + (of_char c - 48)) 0 ds"

definition readSign :: "string \<Rightarrow> bool \<times> string" where
  "readSign s =
     (case s of
        [] \<Rightarrow> (False, [])
      | c # r \<Rightarrow> if c = CHR ''-'' then (True, r)
                 else if c = CHR ''+'' then (False, r)
                 else (False, c # r))"

definition readFraction :: "string \<Rightarrow> string \<times> string" where
  "readFraction s =
     (case s of
        [] \<Rightarrow> ([], [])
      | c # r \<Rightarrow> if c = CHR ''.'' then (takeWhile isDigit r, dropWhile isDigit r)
                 else ([], c # r))"

definition readExponent :: "string \<Rightarrow> int" where
  "readExponent s =
     (case s of
        [] \<Rightarrow> 0
      | c # r \<Rightarrow>
          if c = CHR ''e'' \<or> c = CHR ''E'' then
            (let (neg, t) = readSign r; ds = takeWhile isDigit t
             in if ds = [] then 0
                else if neg then - int (digitsValue ds) else int (digitsValue ds))
          else 0)"

definition scale10 :: "rat \<Rightarrow> int \<Rightarrow> rat" where
  "scale10 m e = (if 0 \<le> e then m * 10 ^ nat e else m / 10 ^ nat (- e))"

definition parseFloat :: "string \<Rightarrow> jsnum" where
  "parseFloat input =
     (let trimmed = dropWhile isWhiteSpace input;
          (neg, u) = readSign trimmed
      in if take 8 u = ''Infinity'' then (if neg then NegInf else PosInf)
         else
           (let ip = takeWhile isDigit u;
                (fp, rest) = readFraction (dropWhile isDigit u)
            in if ip = [] \<and> fp = [] then NaN
               else
                 (let mant = of_nat (digitsValue ip) + of_nat (digitsValue fp) / 10 ^ length fp;
                      v = roundDouble (scale10 mant (readExponent rest))
                  in if neg then negate v else v)))"

subsection \<open>Property lookup on object literals\<close>

text \<open>
  \<open>obj[key]\<close> on an object literal finds the literal's own property, and otherwise the
  property of that name inherited from \<open>Object.prototype\<close>; only when neither exists is the
  result \<open>undefined\<close>.
\<close>

datatype 'a jsval = Undefined | Val 'a | ProtoMember string

definition objectPrototype :: "string list" where
  "objectPrototype =
     [''constructor'', ''hasOwnProperty'', ''isPrototypeOf'', ''propertyIsEnumerable'',
      ''toLocaleString'', ''toString'', ''valueOf'', ''__proto__'', ''__defineGetter__'',
      ''__defineSetter__'', ''__lookupGetter__'', ''__lookupSetter__'']"

definition getProp :: "(string \<times> 'a) list \<Rightarrow> string \<Rightarrow> 'a jsval" where
  "getProp obj key =
     (case map_of obj key of
        Some v \<Rightarrow> Val v
      | None \<Rightarrow> if key \<in> set objectPrototype then ProtoMember key else Undefined)"

subsection \<open>Rendered text\<close>

text \<open>
  The strings the page shows are sequences of pieces. What the internationalisation
  library and the engine produce is kept as an uninterpreted piece that records the call:
  \<open>EsCLNumber n d\<close> is \<open>Intl.NumberFormat('es-CL', {minimumFractionDigits: d,
  maximumFractionDigits: d}).format(n)\<close>, \<open>EsCLDate f\<close> is
  \<open>new Date(f).toLocaleDateString('es-CL')\<close>, \<open>EsCLShortDate f\<close> is the same call with
  the options \<open>weekday: 'short', month: 'short', day: 'numeric'\<close>, and \<open>NativeText k\<close> is
  the string conversion of the member \<open>k\<close> of \<open>Object.prototype\<close>.
\<close>

datatype piece =
    Chars string
  | EsCLNumber jsnum nat
  | EsCLDate string
  | EsCLShortDate string
  | NativeText string

type_synonym rendered = "piece list"

text \<open>A value interpolated into a template literal.\<close>

definition templateText :: "string jsval \<Rightarrow> rendered" where
  "templateText v =
     (case v of Undefined \<Rightarrow> [Chars ''undefined''] | Val s \<Rightarrow> [Chars s]
      | ProtoMember k \<Rightarrow> [NativeText k])"

text \<open>A value assigned to \<open>textContent\<close>: \<open>undefined\<close> gives the empty text.\<close>

definition contentText :: "string jsval \<Rightarrow> rendered" where
  "contentText v =
     (case v of Undefined \<Rightarrow> [] | Val s \<Rightarrow> [Chars s] | ProtoMember k \<Rightarrow> [NativeText k])"

text \<open>
  \<open>toUpperCase\<close> on strings of code units below 256: the ASCII letters and the letters of
  Latin-1 go to their capitals, the sharp s to \<open>SS\<close>. (The micro sign and the y with
  diaeresis, whose capitals are not below 256, are left as they are.)
\<close>

definition lowerLetters :: string where
  "lowerLetters = ''abcdefghijklmnopqrstuvwxyz'' @
       [CHR 0xE0, CHR 0xE1, CHR 0xE2, CHR 0xE3, CHR 0xE4, CHR 0xE5, CHR 0xE6, CHR 0xE7,
        CHR 0xE8, CHR 0xE9, CHR 0xEA, CHR 0xEB, CHR 0xEC, CHR 0xED, CHR 0xEE, CHR 0xEF,
        CHR 0xF0, CHR 0xF1, CHR 0xF2, CHR 0xF3, CHR 0xF4, CHR 0xF5, CHR 0xF6, CHR 0xF8,
        CHR 0xF9, CHR 0xFA, CHR 0xFB, CHR 0xFC, CHR 0xFD, CHR 0xFE]"

definition upperLetters :: string where
  "upperLetters = ''ABCDEFGHIJKLMNOPQRSTUVWXYZ'' @
       [CHR 0xC0, CHR 0xC1, CHR 0xC2, CHR 0xC3, CHR 0xC4, CHR 0xC5, CHR 0xC6, CHR 0xC7,
        CHR 0xC8, CHR 0xC9, CHR 0xCA, CHR 0xCB, CHR 0xCC, CHR 0xCD, CHR 0xCE, CHR 0xCF,
        CHR 0xD0, CHR 0xD1, CHR 0xD2, CHR 0xD3, CHR 0xD4, CHR 0xD5, CHR 0xD6, CHR 0xD8,
        CHR 0xD9, CHR 0xDA, CHR 0xDB, CHR 0xDC, CHR 0xDD, CHR 0xDE]"

definition upperChar :: "char \<Rightarrow> string" where
  "upperChar c =
     (case map_of (zip lowerLetters upperLetters) c of
        Some u \<Rightarrow> [u]
      | None \<Rightarrow> if c = CHR 0xDF then ''SS'' else [c])"

definition toUpperCase :: "string \<Rightarrow> string" where
  "toUpperCase s = concat (map upperChar s)"

section \<open>Configuration and pure functions (identical in both script versions)\<close>

definition API_URL :: string where
  "API_URL = ''https://mindicador.cl/api''"

definition currencyNames :: "(string \<times> string) list" where
  "currencyNames =
     [(''dolar'', ''D'' @ [CHR 0xF3] @ ''lar Americano (USD)''),
      (''euro'', ''Euro (EUR)''),
      (''uf'', ''Unidad de Fomento (UF)''),
      (''utm'', ''Unidad Tributaria Mensual (UTM)''),
      (''dolar_intercambio'', ''D'' @ [CHR 0xF3] @ ''lar Intercambio'')]"

definition calculateConversion :: "jsnum \<Rightarrow> jsnum \<Rightarrow> string \<Rightarrow> jsnum" where
  "calculateConversion amount exchangeRate currency = jsdiv amount exchangeRate"

definition symbols :: "(string \<times> string) list" where
  "symbols =
     [(''dolar'', ''USD''), (''dolar_intercambio'', ''USD''), (''euro'', ''EUR''),
      (''uf'', ''UF''), (''utm'', ''UTM'')]"

text \<open>\<open>symbols[currency] || currency.toUpperCase()\<close>: the right operand is taken when the
  looked-up value is falsy, that is \<open>undefined\<close> or the empty string.\<close>

definition getCurrencySymbol :: "string \<Rightarrow> string jsval" where
  "getCurrencySymbol currency =
     (case getProp symbols currency of
        Undefined \<Rightarrow> Val (toUpperCase currency)
      | Val s \<Rightarrow> if s = [] then Val (toUpperCase currency) else Val s
      | ProtoMember k \<Rightarrow> ProtoMember k)"

definition formatNumber :: "jsnum \<Rightarrow> nat \<Rightarrow> rendered" where
  "formatNumber number decimals = [EsCLNumber number decimals]"

definition formatConvertedAmount :: "jsnum \<Rightarrow> string \<Rightarrow> rendered" where
  "formatConvertedAmount amount currency =
     (let symbol = getCurrencySymbol currency
      in if currency = ''uf'' \<or> currency = ''utm''
         then formatNumber amount 4 @ [Chars '' ''] @ templateText symbol
         else templateText symbol @ [Chars '' ''] @ formatNumber amount 2)"

section \<open>The page\<close>

text \<open>
  One observation of the indicator series as the API returns it, and the ways the request
  can settle: \<open>fetch\<close> rejects, or a response arrives, with its properties \<open>ok\<close> and
  \<open>status\<close>, whose body either cannot be read as JSON or is an object whose field \<open>serie\<close>
  is absent (\<open>None\<close>) or an array.
\<close>

record observation =
  fecha :: string
  valor :: jsnum

datatype body = Unparseable | Data "observation list option"

datatype outcome = Rejected | Response bool nat body

text \<open>What the \<open>try\<close> block of \<open>convertCurrency\<close> can throw; the \<open>catch\<close> clause logs it.\<close>

datatype failure = FetchFailed | ApiError nat | JsonFailed | NoData | ChartFailed

text \<open>
  The module-level state both script versions share: the two form controls, the submit
  button, the \<open>hidden\<close> class of the loading, result and error regions, the text of the
  error paragraph and of the five result spans. Three more fields record the environment:
  the calls of \<open>convertCurrency\<close> suspended at their \<open>await\<close> (with the amount and currency
  each one closed over), the URLs fetched so far, and what was written to the console.
\<close>

record page =
  amountValue :: string
  currencyValue :: string
  convertBtnDisabled :: bool
  loadingHidden :: bool
  resultHidden :: bool
  errorHidden :: bool
  errorText :: string
  originalAmountText :: rendered
  targetCurrencyText :: rendered
  exchangeRateText :: rendered
  convertedAmountText :: rendered
  updateDateText :: rendered
  pending :: "(jsnum \<times> string) list"
  requests :: "string list"
  console :: "failure list"

text \<open>The show and hide helpers and \<open>displayResult\<close> have the same text in both versions.\<close>

definition showLoading :: "'a page_scheme \<Rightarrow> 'a page_scheme" where
  "showLoading s = s\<lparr>loadingHidden := False, convertBtnDisabled := True\<rparr>"

definition hideLoading :: "'a page_scheme \<Rightarrow> 'a page_scheme" where
  "hideLoading s = s\<lparr>loadingHidden := True, convertBtnDisabled := False\<rparr>"

definition showResult :: "'a page_scheme \<Rightarrow> 'a page_scheme" where
  "showResult s = s\<lparr>resultHidden := False\<rparr>"

definition hideResult :: "'a page_scheme \<Rightarrow> 'a page_scheme" where
  "hideResult s = s\<lparr>resultHidden := True\<rparr>"

definition showError :: "string \<Rightarrow> 'a page_scheme \<Rightarrow> 'a page_scheme" where
  "showError message s = s\<lparr>errorText := message, errorHidden := False\<rparr>"

definition hideError :: "'a page_scheme \<Rightarrow> 'a page_scheme" where
  "hideError s = s\<lparr>errorHidden := True\<rparr>"

definition displayResult ::
  "jsnum \<Rightarrow> string \<Rightarrow> jsnum \<Rightarrow> jsnum \<Rightarrow> rendered \<Rightarrow> 'a page_scheme \<Rightarrow> 'a page_scheme" where
  "displayResult originalAmount currency exchangeRate convertedAmount updateDate s =
     showResult
       (s\<lparr>originalAmountText := formatNumber originalAmount 0,
          targetCurrencyText := contentText (getProp currencyNames currency),
          exchangeRateText := formatNumber exchangeRate 0,
          convertedAmountText := formatConvertedAmount convertedAmount currency,
          updateDateText := updateDate\<rparr>)"

definition msgInvalidAmount :: string where
  "msgInvalidAmount = ''Por favor, ingresa un monto v'' @ [CHR 0xE1] @ ''lido mayor a 0.''"

definition msgNoCurrency :: string where
  "msgNoCurrency = ''Por favor, selecciona una moneda de destino.''"

definition msgConversionError :: string where
  "msgConversionError =
     ''Error al obtener los datos de conversi'' @ [CHR 0xF3] @ ''n. Verifica tu conexi''
       @ [CHR 0xF3] @ ''n a internet e intenta nuevamente.''"

text \<open>
  \<open>convertCurrency\<close> is an asynchronous function, modelled in three pieces. The piece
  named \<open>convertCurrency\<close> runs up to the \<open>await\<close> of \<open>fetch\<close>; \<open>tryBody\<close> is the rest of
  the \<open>try\<close> block, run when the request has settled, and returns what it threw, if
  anything, with the page as it was left; \<open>catchFinally\<close> is the \<open>catch\<close> and \<open>finally\<close>
  clauses, the same in both versions. \<open>resume\<close> is \<open>tryBody\<close> followed by \<open>catchFinally\<close>.
\<close>

definition catchFinally :: "failure option \<times> 'a page_scheme \<Rightarrow> 'a page_scheme" where
  "catchFinally r =
     hideLoading
       (case fst r of
          None \<Rightarrow> snd r
        | Some error \<Rightarrow>
            showError msgConversionError ((snd r)\<lparr>console := console (snd r) @ [error]\<rparr>))"

text \<open>The part of \<open>convertCurrency\<close> that runs before the \<open>await\<close> of \<open>fetch\<close> hands
  control back: the request is issued and the call is suspended.\<close>

definition suspend :: "jsnum \<Rightarrow> string \<Rightarrow> 'a page_scheme \<Rightarrow> 'a page_scheme" where
  "suspend amount currency s =
     s\<lparr>requests := requests s @ [API_URL @ ''/'' @ currency],
       pending := pending s @ [(amount, currency)]\<rparr>"

section \<open>The version without a chart (script.js)\<close>

definition tryBody_script ::
  "jsnum \<Rightarrow> string \<Rightarrow> outcome \<Rightarrow> page \<Rightarrow> failure option \<times> page" where
  "tryBody_script amount currency out s =
     (case out of
        Rejected \<Rightarrow> (Some FetchFailed, s)
      | Response ok status b \<Rightarrow>
          if \<not> ok then (Some (ApiError status), s)
          else
            (case b of
               Unparseable \<Rightarrow> (Some JsonFailed, s)
             | Data None \<Rightarrow> (Some NoData, s)
             | Data (Some []) \<Rightarrow> (Some NoData, s)
             | Data (Some (latestValue # rest)) \<Rightarrow>
                 (let exchangeRate = valor latestValue;
                      updateDate = [EsCLDate (fecha latestValue)];
                      convertedAmount = calculateConversion amount exchangeRate currency
                  in (None,
                      displayResult amount currency exchangeRate convertedAmount updateDate s))))"

definition convertCurrency_script :: "jsnum \<Rightarrow> string \<Rightarrow> page \<Rightarrow> page" where
  "convertCurrency_script amount currency s =
     suspend amount currency (hideResult (hideError (showLoading s)))"

definition resume_script :: "jsnum \<times> string \<Rightarrow> outcome \<Rightarrow> page \<Rightarrow> page" where
  "resume_script call out s = catchFinally (tryBody_script (fst call) (snd call) out s)"

definition handleConversion_script :: "page \<Rightarrow> page" where
  "handleConversion_script s =
     (let amount = parseFloat (amountValue s);
          selectedCurrency = currencyValue s
      in if \<not> truthy amount \<or> lessEqZero amount then showError msgInvalidAmount s
         else if selectedCurrency = [] then showError msgNoCurrency s
         else convertCurrency_script amount selectedCurrency s)"

definition clearForm_script :: "page \<Rightarrow> page" where
  "clearForm_script s = hideError (hideResult (s\<lparr>amountValue := [], currencyValue := []\<rparr>))"

section \<open>The version with a chart\<close>

text \<open>
  The chart the charting library is asked to draw (the constant styling options are left
  out), and the page extended with the chart region, the module variable \<open>currencyChart\<close>
  and the library's side of the story: the chart instances that were constructed and not
  yet destroyed, each under the number it was given at construction.
\<close>

record chart =
  chartLabels :: "rendered list"
  datasetLabel :: rendered
  chartData :: "jsnum list"
  borderColor :: "string jsval"
  backgroundColor :: "string jsval"
  titleText :: rendered

record chartPage = page +
  chartHidden :: bool
  currencyChart :: "nat option"
  charts :: "(nat \<times> chart) list"
  created :: nat

definition showChart :: "chartPage \<Rightarrow> chartPage" where
  "showChart s = s\<lparr>chartHidden := False\<rparr>"

definition hideChart :: "chartPage \<Rightarrow> chartPage" where
  "hideChart s = s\<lparr>chartHidden := True\<rparr>"

text \<open>\<open>currencyChart.destroy()\<close> on the instance numbered \<open>h\<close>.\<close>

definition destroy :: "nat \<Rightarrow> chartPage \<Rightarrow> chartPage" where
  "destroy h s = s\<lparr>charts := filter (\<lambda>entry. fst entry \<noteq> h) (charts s)\<rparr>"

record colors =
  border :: string
  background :: string

definition colorMap :: "(string \<times> colors) list" where
  "colorMap =
     [(''dolar'', \<lparr>border = ''#2e7d32'', background = ''rgba(76, 175, 80, 0.1)''\<rparr>),
      (''dolar_intercambio'', \<lparr>border = ''#1976d2'', background = ''rgba(33, 150, 243, 0.1)''\<rparr>),
      (''euro'', \<lparr>border = ''#7b1fa2'', background = ''rgba(156, 39, 176, 0.1)''\<rparr>),
      (''uf'', \<lparr>border = ''#d32f2f'', background = ''rgba(244, 67, 54, 0.1)''\<rparr>),
      (''utm'', \<lparr>border = ''#f57c00'', background = ''rgba(255, 152, 0, 0.1)''\<rparr>)]"

definition getCurrencyColors :: "string \<Rightarrow> colors jsval" where
  "getCurrencyColors currency =
     (case getProp colorMap currency of
        Undefined \<Rightarrow> Val \<lparr>border = ''#666'', background = ''rgba(102, 102, 102, 0.1)''\<rparr>
      | Val c \<Rightarrow> Val c
      | ProtoMember k \<Rightarrow> ProtoMember k)"

text \<open>\<open>colors.border\<close> and \<open>colors.background\<close>: a member of \<open>Object.prototype\<close> has neither.\<close>

definition colorField :: "(colors \<Rightarrow> string) \<Rightarrow> colors jsval \<Rightarrow> string jsval" where
  "colorField f v = (case v of Val c \<Rightarrow> Val (f c) | Undefined \<Rightarrow> Undefined | ProtoMember k \<Rightarrow> Undefined)"

text \<open>
  \<open>createChart\<close> contains no \<open>await\<close>. The flag \<open>libOk\<close> says whether the canvas lookup and
  the chart constructor return; when they throw, the previous instance has already been
  destroyed and \<open>currencyChart\<close> has not been assigned.
\<close>

definition createChart ::
  "string \<Rightarrow> observation list \<Rightarrow> bool \<Rightarrow> chartPage \<Rightarrow> failure option \<times> chartPage" where
  "createChart currency serie libOk s =
     (let last3Days = rev (take 3 serie);
          labels = map (\<lambda>item. [EsCLShortDate (fecha item)]) last3Days;
          values = map valor last3Days;
          s1 = (case currencyChart s of None \<Rightarrow> s | Some h \<Rightarrow> destroy h s)
      in if \<not> libOk then (Some ChartFailed, s1)
         else
           (let colors = getCurrencyColors currency;
                name = templateText (getProp currencyNames currency);
                c = \<lparr>chartLabels = labels,
                     datasetLabel = [Chars ''Valor en CLP - ''] @ name,
                     chartData = values,
                     borderColor = colorField border colors,
                     backgroundColor = colorField background colors,
                     titleText =
                       [Chars (''Evoluci'' @ [CHR 0xF3] @ ''n de '')] @ name
                         @ [Chars ('' - '' @ [CHR 0xDA] @ ''ltimos 3 d'' @ [CHR 0xED] @ ''as'')]\<rparr>
            in (None,
                showChart
                  (s1\<lparr>currencyChart := Some (created s1),
                      charts := charts s1 @ [(created s1, c)],
                      created := Suc (created s1)\<rparr>))))"

definition tryBody ::
  "jsnum \<Rightarrow> string \<Rightarrow> outcome \<Rightarrow> bool \<Rightarrow> chartPage \<Rightarrow> failure option \<times> chartPage" where
  "tryBody amount currency out libOk s =
     (case out of
        Rejected \<Rightarrow> (Some FetchFailed, s)
      | Response ok status b \<Rightarrow>
          if \<not> ok then (Some (ApiError status), s)
          else
            (case b of
               Unparseable \<Rightarrow> (Some JsonFailed, s)
             | Data None \<Rightarrow> (Some NoData, s)
             | Data (Some []) \<Rightarrow> (Some NoData, s)
             | Data (Some (latestValue # rest)) \<Rightarrow>
                 (let exchangeRate = valor latestValue;
                      updateDate = [EsCLDate (fecha latestValue)];
                      convertedAmount = calculateConversion amount exchangeRate currency
                  in createChart currency (latestValue # rest) libOk
                       (displayResult amount currency exchangeRate convertedAmount updateDate
                          s))))"

definition convertCurrency :: "jsnum \<Rightarrow> string \<Rightarrow> chartPage \<Rightarrow> chartPage" where
  "convertCurrency amount currency s =
     suspend amount currency (hideChart (hideResult (hideError (showLoading s))))"

definition resume :: "jsnum \<times> string \<Rightarrow> outcome \<Rightarrow> bool \<Rightarrow> chartPage \<Rightarrow> chartPage" where
  "resume call out libOk s = catchFinally (tryBody (fst call) (snd call) out libOk s)"

definition handleConversion :: "chartPage \<Rightarrow> chartPage" where
  "handleConversion s =
     (let amount = parseFloat (amountValue s);
          selectedCurrency = currencyValue s
      in if \<not> truthy amount \<or> lessEqZero amount then showError msgInvalidAmount s
         else if selectedCurrency = [] then showError msgNoCurrency s
         else convertCurrency amount selectedCurrency s)"

definition clearChart :: "chartPage \<Rightarrow> chartPage" where
  "clearChart s =
     (case currencyChart s of
        None \<Rightarrow> s
      | Some h \<Rightarrow> (destroy h s)\<lparr>currencyChart := None\<rparr>)"

definition clearForm :: "chartPage \<Rightarrow> chartPage" where
  "clearForm s =
     clearChart (hideChart (hideError (hideResult (s\<lparr>amountValue := [], currencyValue := []\<rparr>))))"

definition currencyChanged :: "chartPage \<Rightarrow> chartPage" where
  "currencyChanged s = clearChart (hideChart (hideError s))"

section \<open>Events\<close>

text \<open>
  What can happen to the page: the user edits the amount (the \<open>input\<close> listener runs),
  picks a currency (the \<open>change\<close> listener runs), submits the form, a suspended call of
  \<open>convertCurrency\<close> is resumed because its request settled, or \<open>clearForm\<close> is called.
  The browser delivers no \<open>submit\<close> event while the submit button is disabled. The two
  \<open>await\<close>s on the response are one step, since nothing is written between them, and the
  \<open>await\<close> of \<open>createChart\<close> only waits for a promise that is already settled.
\<close>

datatype event =
    InputAmount string
  | ChangeCurrency string
  | Submit
  | Settle nat outcome bool
  | ClearForm

definition without :: "nat \<Rightarrow> 'a list \<Rightarrow> 'a list" where
  "without i xs = take i xs @ drop (Suc i) xs"

definition dispatch_script :: "event \<Rightarrow> page \<Rightarrow> page" where
  "dispatch_script ev s =
     (case ev of
        InputAmount v \<Rightarrow> hideError (s\<lparr>amountValue := v\<rparr>)
      | ChangeCurrency v \<Rightarrow> hideError (s\<lparr>currencyValue := v\<rparr>)
      | Submit \<Rightarrow> if convertBtnDisabled s then s else handleConversion_script s
      | Settle i out libOk \<Rightarrow>
          if i < length (pending s)
          then resume_script (pending s ! i) out (s\<lparr>pending := without i (pending s)\<rparr>)
          else s
      | ClearForm \<Rightarrow> clearForm_script s)"

definition dispatch :: "event \<Rightarrow> chartPage \<Rightarrow> chartPage" where
  "dispatch ev s =
     (case ev of
        InputAmount v \<Rightarrow> hideError (s\<lparr>amountValue := v\<rparr>)
      | ChangeCurrency v \<Rightarrow> currencyChanged (s\<lparr>currencyValue := v\<rparr>)
      | Submit \<Rightarrow> if convertBtnDisabled s then s else handleConversion s
      | Settle i out libOk \<Rightarrow>
          if i < length (pending s)
          then resume (pending s ! i) out libOk (s\<lparr>pending := without i (pending s)\<rparr>)
          else s
      | ClearForm \<Rightarrow> clearForm s)"

definition run_script :: "event list \<Rightarrow> page \<Rightarrow> page" where
  "run_script evs s = foldl (\<lambda>t ev. dispatch_script ev t) s evs"

definition run :: "event list \<Rightarrow> chartPage \<Rightarrow> chartPage" where
  "run evs s = foldl (\<lambda>t ev. dispatch ev t) s evs"

text \<open>The page as loaded: empty form, every region hidden, no chart.\<close>

definition initial_script :: page where
  "initial_script =
     \<lparr>amountValue = [], currencyValue = [], convertBtnDisabled = False,
      loadingHidden = True, resultHidden = True, errorHidden = True, errorText = [],
      originalAmountText = [], targetCurrencyText = [], exchangeRateText = [],
      convertedAmountText = [], updateDateText = [], pending = [], requests = [],
      console = []\<rparr>"

definition initial :: chartPage where
  "initial =
     \<lparr>amountValue = [], currencyValue = [], convertBtnDisabled = False,
      loadingHidden = True, resultHidden = True, errorHidden = True, errorText = [],
      originalAmountText = [], targetCurrencyText = [], exchangeRateText = [],
      convertedAmountText = [], updateDateText = [], pending = [], requests = [],
      console = [], chartHidden = True, currencyChart = None, charts = [], created = 0\<rparr>"

section \<open>Observations used in the statements\<close>

text \<open>The comparison \<open>n > 0\<close>.\<close>

definition greaterZero :: "jsnum \<Rightarrow> bool" where
  "greaterZero n =
     (case n of NaN \<Rightarrow> False | NegInf \<Rightarrow> False | Fin r \<Rightarrow> 0 < r | NegZero \<Rightarrow> False
      | PosInf \<Rightarrow> True)"

text \<open>A request that does not deliver a non-empty series: \<open>fetch\<close> rejects, the status is
  not a success, the body is not JSON, or \<open>serie\<close> is absent or empty.\<close>

definition failing :: "outcome \<Rightarrow> bool" where
  "failing out =
     (case out of
        Rejected \<Rightarrow> True
      | Response ok status b \<Rightarrow>
          \<not> ok \<or> (case b of Unparseable \<Rightarrow> True | Data None \<Rightarrow> True
                   | Data (Some serie) \<Rightarrow> serie = []))"



text \<open>What the two versions have in common: the form, the button, the loading and result
  regions, the five result fields, the suspended calls and the requests issued.\<close>

definition sameCore :: "chartPage \<Rightarrow> page \<Rightarrow> bool" where
  "sameCore s t \<longleftrightarrow>
     amountValue s = amountValue t \<and> currencyValue s = currencyValue t \<and>
     convertBtnDisabled s = convertBtnDisabled t \<and> loadingHidden s = loadingHidden t \<and>
     resultHidden s = resultHidden t \<and>
     originalAmountText s = originalAmountText t \<and>
     targetCurrencyText s = targetCurrencyText t \<and>
     exchangeRateText s = exchangeRateText t \<and>
     convertedAmountText s = convertedAmountText t \<and>
     updateDateText s = updateDateText t \<and>
     pending s = pending t \<and> requests s = requests t"

text \<open>The error region and the console of the two versions.\<close>

definition sameMessages :: "chartPage \<Rightarrow> page \<Rightarrow> bool" where
  "sameMessages s t \<longleftrightarrow>
     errorHidden s = errorHidden t \<and> errorText s = errorText t \<and> console s = console t"

text \<open>An event in which the charting library does not throw.\<close>

definition libraryWorks :: "event \<Rightarrow> bool" where
  "libraryWorks ev = (case ev of Settle i out libOk \<Rightarrow> libOk | _ \<Rightarrow> True)"

text \<open>The example of the specification: 1000 pesos to dollars against three observations.\<close>

definition exampleSerie :: "observation list" where
  "exampleSerie =
     [\<lparr>fecha = ''2024-01-03'', valor = Fin 900\<rparr>,
      \<lparr>fecha = ''2024-01-02'', valor = Fin 890\<rparr>,
      \<lparr>fecha = ''2024-01-01'', valor = Fin 880\<rparr>]"

definition exampleSubmission :: "event list" where
  "exampleSubmission = [InputAmount ''1000'', ChangeCurrency ''dolar'', Submit]"

definition exampleConversion :: "event list" where
  "exampleConversion =
     exampleSubmission @ [Settle 0 (Response True 200 (Data (Some exampleSerie))) True]"

text \<open>
  The invariant of the page with a chart: at most one call is suspended, and exactly then
  the button is disabled and the loading region shown; while a call is suspended the
  result, chart and error regions are hidden; a visible result region holds a rendered
  conversion, a visible chart region comes with a visible result and a live chart, a
  visible error region shows one of the three messages; the only chart instance that can
  be alive is the one \<open>currencyChart\<close> refers to, and instance numbers are not reused.
\<close>

definition wellFormed :: "chartPage \<Rightarrow> bool" where
  "wellFormed s \<longleftrightarrow>
     length (pending s) \<le> 1 \<and>
     convertBtnDisabled s = (pending s \<noteq> []) \<and>
     loadingHidden s = (pending s = []) \<and>
     (pending s \<noteq> [] \<longrightarrow> resultHidden s \<and> chartHidden s \<and> errorHidden s) \<and>
     (\<not> resultHidden s \<longrightarrow> convertedAmountText s \<noteq> []) \<and>
     (\<not> chartHidden s \<longrightarrow> \<not> resultHidden s \<and> charts s \<noteq> []) \<and>
     (\<not> errorHidden s \<longrightarrow>
        errorText s \<in> {msgInvalidAmount, msgNoCurrency, msgConversionError}) \<and>
     (charts s = [] \<or> map (\<lambda>entry. Some (fst entry)) (charts s) = [currencyChart s]) \<and>
     set_option (currencyChart s) \<subseteq> {..<created s}"

section \<open>Auxiliary facts\<close>

lemmas helper_defs =
  showLoading_def hideLoading_def showResult_def hideResult_def showError_def hideError_def
  displayResult_def catchFinally_def suspend_def showChart_def hideChart_def destroy_def
  clearChart_def

lemmas parse_only =
  parseFloat_def readSign_def readFraction_def readExponent_def isDigit_def
  isWhiteSpace_def digitsValue_def scale10_def negate_def

lemmas div_defs =
  jsdiv_def isNegative_def isInfinite_def isZero_def finiteValue_def signedZero_def
  signedInf_def

subsection \<open>Rounding: values and accuracy\<close>

lemma floor_rat_numeral: "\<lfloor>numeral a / numeral b :: rat\<rfloor> = numeral a div numeral b"
  by (metis floor_divide_of_int_eq of_int_numeral)

lemma binaryExponent_values:
  "binaryExponent 0 = - 1022" "binaryExponent 5 = 2" "binaryExponent 7 = 2"
  "binaryExponent 12 = 3" "binaryExponent 1000 = 9" "binaryExponent 2000 = 10"
  "binaryExponent (10 / 9) = 0"
  by (simp_all add: binaryExponent_def pow2_def)

lemma binaryExponent_extremes:
  "binaryExponent (1 / 10 ^ 400) = - 1022" "binaryExponent (10 ^ 400) = 1023"
  by (simp_all add: binaryExponent_def pow2_def)

lemma roundDouble_values:
  "roundDouble 0 = Fin 0" "roundDouble 5 = Fin 5" "roundDouble 7 = Fin 7"
  "roundDouble 12 = Fin 12" "roundDouble 1000 = Fin 1000" "roundDouble 2000 = Fin 2000"
  "roundDouble (10 / 9) = Fin (2501999792983609 / 2251799813685248)"
  using binaryExponent_values
  by (simp_all add: roundDouble_def Let_def pow2_def roundHalfEven_def signedZero_def
        signedInf_def floor_rat_numeral)

lemma roundDouble_extremes:
  "roundDouble (1 / 10 ^ 400) = Fin 0"
  "roundDouble (10 ^ 400) = PosInf"
  using binaryExponent_extremes
  by (simp_all add: roundDouble_def Let_def pow2_def roundHalfEven_def signedZero_def
        signedInf_def floor_rat_numeral)

lemma parseFloat_values:
  "parseFloat ''0'' = Fin 0" "parseFloat ''5'' = Fin 5" "parseFloat ''7'' = Fin 7"
  "parseFloat ''12abc'' = Fin 12" "parseFloat ''1000'' = Fin 1000"
  "parseFloat ''2000'' = Fin 2000" "parseFloat ''-5'' = Fin (- 5)"
  "parseFloat ''abc'' = NaN" "parseFloat ''-0'' = NegZero"
  using roundDouble_values by (simp_all add: parse_only)

lemma parseFloat_extremes:
  "parseFloat ''1e-400'' = Fin 0" "parseFloat ''1e400'' = PosInf"
  using roundDouble_extremes by (simp_all add: parse_only)

lemmas parse_defs = parseFloat_values parseFloat_extremes

lemma jsdiv_example:
  "jsdiv (Fin 1000) (Fin 900) = Fin (2501999792983609 / 2251799813685248)"
  "jsdiv (Fin 1000) (Fin 0) = PosInf" "jsdiv (Fin 1000) NegZero = NegInf"
  using roundDouble_values by (simp_all add: div_defs)

lemma roundDouble_not_NaN: "roundDouble q \<noteq> NaN"
  by (simp add: roundDouble_def Let_def signedZero_def signedInf_def)

lemma negate_not_NaN: "negate n = NaN \<longleftrightarrow> n = NaN"
  by (cases n) (simp_all add: negate_def)

lemma pow2_powi: "pow2 e = 2 powi e"
  by (simp add: pow2_def power_int_def power_one_over [symmetric] inverse_eq_divide)

lemma pow2_pos: "0 < pow2 e"
  by (simp add: pow2_powi)

lemma pow2_diff: "pow2 (e - k) = pow2 e / pow2 k"
  by (simp add: pow2_powi power_int_diff)

lemma exponent_search:
  assumes "pow2 e \<le> m" "e \<le> 1023"
  shows "pow2 (foldl (\<lambda>e step. if e + step \<le> 1023 \<and> pow2 (e + step) \<le> m then e + step else e)
           e steps) \<le> m
       \<and> foldl (\<lambda>e step. if e + step \<le> 1023 \<and> pow2 (e + step) \<le> m then e + step else e)
           e steps \<le> 1023"
  using assms by (induction steps arbitrary: e) auto

lemma binaryExponent_below:
  assumes "pow2 (- 1022) \<le> m"
  shows "pow2 (binaryExponent m) \<le> m" "binaryExponent m \<le> 1023"
proof -
  have "(- 1022 :: int) \<le> 1023" by simp
  from exponent_search [OF assms this, of "[1024, 512, 256, 128, 64, 32, 16, 8, 4, 2, 1]"]
  show "pow2 (binaryExponent m) \<le> m" "binaryExponent m \<le> 1023"
    unfolding binaryExponent_def by blast+
qed

lemma roundHalfEven_close: "\<bar>of_int (roundHalfEven x) - x\<bar> \<le> 1 / 2"
proof -
  have "of_int \<lfloor>x\<rfloor> \<le> x" "x < of_int \<lfloor>x\<rfloor> + 1"
    by linarith+
  then show ?thesis
    by (auto simp add: roundHalfEven_def Let_def abs_le_iff)
qed

text \<open>In the range of the normal doubles, rounding is off by at most one part in \<open>2 ^ 53\<close>.\<close>

lemma roundDouble_accurate:
  assumes low: "pow2 (- 1022) \<le> \<bar>q\<bar>" and high: "\<bar>q\<bar> \<le> pow2 1023"
  shows "\<exists>v. roundDouble q = Fin v \<and> \<bar>v - q\<bar> \<le> \<bar>q\<bar> / 2 ^ 53"
proof -
  define m where "m = \<bar>q\<bar>"
  define e where "e = binaryExponent m"
  define quantum where "quantum = pow2 (e - 52)"
  define n where "n = roundHalfEven (m / quantum)"
  define v where "v = of_int n * quantum"
  have mpos: "0 < m"
    using low pow2_pos [of "- 1022"] by (simp add: m_def)
  have e: "pow2 e \<le> m"
    using binaryExponent_below(1) [of m] low by (simp add: e_def m_def)
  have qpos: "0 < quantum" by (simp add: quantum_def pow2_pos)
  have "pow2 52 = 2 ^ 52" by (simp add: pow2_def)
  then have q52: "quantum = pow2 e / 2 ^ 52"
    by (simp add: quantum_def pow2_diff)
  have "\<bar>of_int n - m / quantum\<bar> \<le> 1 / 2"
    unfolding n_def by (rule roundHalfEven_close)
  then have "\<bar>of_int n - m / quantum\<bar> * quantum \<le> 1 / 2 * quantum"
    using qpos by (simp add: mult_right_mono)
  moreover have "(of_int n - m / quantum) * quantum = v - m"
    using qpos by (simp add: v_def left_diff_distrib)
  then have "\<bar>v - m\<bar> = \<bar>(of_int n - m / quantum) * quantum\<bar>"
    by simp
  then have "\<bar>v - m\<bar> = \<bar>of_int n - m / quantum\<bar> * quantum"
    using qpos by (simp add: abs_mult)
  ultimately have close: "\<bar>v - m\<bar> \<le> quantum / 2" by simp
  have "quantum / 2 = pow2 e / 2 ^ 53" by (simp add: q52)
  also have "\<dots> \<le> m / 2 ^ 53" using e by (simp add: divide_right_mono)
  finally have half: "quantum / 2 \<le> m / 2 ^ 53" .
  from close half have bound: "\<bar>v - m\<bar> \<le> m / 2 ^ 53" by linarith
  have small: "m / 2 ^ 53 < m" using mpos by (simp add: field_simps)
  with bound have vpos: "0 < v" by linarith
  have dbl: "pow2 1024 = 2 * pow2 1023"
    using power_int_add_1 [of "2::rat" 1023] by (simp add: pow2_powi)
  from high have "m \<le> pow2 1023" by (simp add: m_def)
  with bound small dbl have vmax: "v < pow2 1024" by linarith
  have "roundDouble q =
      (if v = 0 then signedZero (q < 0)
       else if pow2 1024 \<le> v then signedInf (q < 0)
       else Fin (if q < 0 then - v else v))"
    by (simp only: roundDouble_def Let_def v_def n_def quantum_def e_def m_def)
  with vpos vmax have rd: "roundDouble q = Fin (if q < 0 then - v else v)"
    by simp
  have "\<bar>(if q < 0 then - v else v) - q\<bar> = \<bar>v - m\<bar>"
    by (auto simp add: m_def)
  with rd bound show ?thesis by (simp add: m_def)
qed

lemma jsdiv_finite:
  "a \<noteq> 0 \<Longrightarrow> r \<noteq> 0 \<Longrightarrow> jsdiv (Fin a) (Fin r) = roundDouble (a / r)"
  by (simp add: div_defs)

lemma jsdiv_by_zero:
  "0 < a \<Longrightarrow> jsdiv (Fin a) (Fin 0) = PosInf"
  "0 < a \<Longrightarrow> jsdiv (Fin a) NegZero = NegInf"
  by (simp_all add: div_defs)

subsection \<open>Pages and runs\<close>

lemma greaterZero_accepts: "greaterZero n \<longleftrightarrow> truthy n \<and> \<not> lessEqZero n"
  by (cases n) (auto simp add: greaterZero_def truthy_def lessEqZero_def)

lemma formatConvertedAmount_nonempty: "formatConvertedAmount a c \<noteq> []"
  by (simp add: formatConvertedAmount_def formatNumber_def Let_def)

lemma run_Nil: "run [] s = s"
  by (simp add: run_def)

lemma run_Cons: "run (ev # evs) s = run evs (dispatch ev s)"
  by (simp add: run_def)

lemma run_snoc: "run (evs @ [ev]) s = dispatch ev (run evs s)"
  by (simp add: run_def)

lemma run_script_Nil: "run_script [] s = s"
  by (simp add: run_script_def)

lemma run_script_Cons: "run_script (ev # evs) s = run_script evs (dispatch_script ev s)"
  by (simp add: run_script_def)

lemma run_script_snoc: "run_script (evs @ [ev]) s = dispatch_script ev (run_script evs s)"
  by (simp add: run_script_def)

lemma without_single: "length xs \<le> 1 \<Longrightarrow> i < length xs \<Longrightarrow> without i xs = []"
  by (cases xs) (auto simp add: without_def)

lemma without_last: "without (length xs) (xs @ [x]) = xs"
  by (simp add: without_def)


subsection \<open>The invariant holds in every reachable state\<close>

lemma wellFormed_initial: "wellFormed initial"
  by (simp add: wellFormed_def initial_def)

lemma wellFormed_input: "wellFormed s \<Longrightarrow> wellFormed (dispatch (InputAmount v) s)"
  by (simp add: wellFormed_def dispatch_def helper_defs)

lemma wellFormed_clearChart:
  "wellFormed s \<Longrightarrow> chartHidden s \<Longrightarrow> wellFormed (clearChart s)"
  by (auto simp add: wellFormed_def helper_defs split: option.splits)

lemma wellFormed_change: "wellFormed s \<Longrightarrow> wellFormed (dispatch (ChangeCurrency v) s)"
  unfolding dispatch_def currencyChanged_def event.case
  by (rule wellFormed_clearChart) (auto simp add: wellFormed_def helper_defs)

lemma wellFormed_clear: "wellFormed s \<Longrightarrow> wellFormed (dispatch ClearForm s)"
  unfolding dispatch_def clearForm_def event.case
  by (rule wellFormed_clearChart) (auto simp add: wellFormed_def helper_defs)

lemma wellFormed_submit: "wellFormed s \<Longrightarrow> wellFormed (dispatch Submit s)"
  by (auto simp add: wellFormed_def dispatch_def handleConversion_def convertCurrency_def
        Let_def helper_defs)

lemma wellFormed_failure:
  assumes "wellFormed s" "i < length (pending s)"
  shows "wellFormed (catchFinally (Some e, s\<lparr>pending := without i (pending s)\<rparr>))"
  using assms by (auto simp add: wellFormed_def helper_defs without_single)

lemma wellFormed_success:
  assumes "wellFormed s" "i < length (pending s)"
  shows "wellFormed (catchFinally (createChart currency serie libOk
           (displayResult a currency r q d (s\<lparr>pending := without i (pending s)\<rparr>))))"
  using assms
  by (auto simp add: wellFormed_def createChart_def Let_def helper_defs without_single
        formatConvertedAmount_nonempty split: option.splits)

lemma wellFormed_settle: "wellFormed s \<Longrightarrow> wellFormed (dispatch (Settle i out libOk) s)"
  unfolding dispatch_def event.case resume_def tryBody_def
  by (auto simp add: Let_def wellFormed_failure wellFormed_success
        split: outcome.splits body.splits option.splits list.splits)

lemma wellFormed_dispatch: "wellFormed s \<Longrightarrow> wellFormed (dispatch ev s)"
  by (cases ev)
     (simp_all add: wellFormed_input wellFormed_change wellFormed_submit wellFormed_settle
        wellFormed_clear)

lemma wellFormed_run: "wellFormed s \<Longrightarrow> wellFormed (run evs s)"
  by (induction evs rule: rev_induct) (simp_all add: run_snoc wellFormed_dispatch run_Nil)

lemma wellFormed_reachable: "wellFormed (run evs initial)"
  by (rule wellFormed_run [OF wellFormed_initial])

section \<open>The claims\<close>

subsection \<open>Stepping through a request\<close>

lemma resume_converted:
  "convertedAmountText (resume (a, c) (Response True status (Data (Some (x # xs)))) libOk t)
     = formatConvertedAmount (jsdiv a (valor x)) c"
  by (cases "currencyChart t")
     (simp_all add: resume_def tryBody_def createChart_def Let_def helper_defs
        calculateConversion_def)

lemma dispatch_settle:
  "i < length (pending t) \<Longrightarrow>
   dispatch (Settle i out libOk) t
     = resume (pending t ! i) out libOk (t\<lparr>pending := without i (pending t)\<rparr>)"
  by (simp add: dispatch_def)

lemma convertCurrency_pending:
  "pending (convertCurrency a c s) = pending s @ [(a, c)]"
  by (simp add: convertCurrency_def helper_defs)

lemma dispatch_submit_valid:
  assumes "greaterZero (parseFloat (amountValue s))" "currencyValue s \<noteq> []"
    "\<not> convertBtnDisabled s"
  shows "dispatch Submit s = convertCurrency (parseFloat (amountValue s)) (currencyValue s) s"
  using assms by (simp add: dispatch_def handleConversion_def Let_def greaterZero_accepts)

subsection \<open>C1: the converted amount\<close>

text \<open>
  C1. For every valid submission (amount greater than zero, currency code one of the five
  of the enumeration) and every non-empty series the API returns, the converted amount that
  is rendered is the amount divided by the \<open>valor\<close> of the first element of the series,
  by the one division operator whatever the currency code. For a finite amount \<open>a\<close> and a
  finite rate \<open>r\<close> other than zero it is the quotient \<open>a / r\<close> rounded to the nearest
  double, which for a quotient in the range of the normal doubles is a finite number
  within \<open>\<bar>a / r\<bar> / 2 ^ 53\<close> of \<open>a / r\<close>; a rate of zero gives the infinity that has
  the sign of the zero.
\<close>

theorem conversion_divides:
  assumes "greaterZero amount"
    and "parseFloat (amountValue s) = amount"
    and "currencyValue s = currency"
    and "currency \<in> set (map fst currencyNames)"
    and "\<not> convertBtnDisabled s"
    and "rendered = convertedAmountText
           (run [Submit, Settle (length (pending s))
                   (Response True status (Data (Some (latest # older)))) libOk] s)"
  shows "rendered = formatConvertedAmount (jsdiv amount (valor latest)) currency
       \<and> (\<forall>c. calculateConversion amount (valor latest) c = jsdiv amount (valor latest))
       \<and> (\<forall>a r. amount = Fin a \<and> valor latest = Fin r \<and> r \<noteq> 0 \<longrightarrow>
             rendered = formatConvertedAmount (roundDouble (a / r)) currency)
       \<and> (\<forall>a r. amount = Fin a \<and> valor latest = Fin r
             \<and> pow2 (- 1022) \<le> \<bar>a / r\<bar> \<and> \<bar>a / r\<bar> \<le> pow2 1023 \<longrightarrow>
             (\<exists>v. rendered = formatConvertedAmount (Fin v) currency
                  \<and> \<bar>v - a / r\<bar> \<le> \<bar>a / r\<bar> / 2 ^ 53))
       \<and> (\<forall>a. amount = Fin a \<and> valor latest = Fin 0 \<longrightarrow>
             rendered = formatConvertedAmount PosInf currency)
       \<and> (\<forall>a. amount = Fin a \<and> valor latest = NegZero \<longrightarrow>
             rendered = formatConvertedAmount NegInf currency)"
proof -
  from assms(3,4) have nonempty: "currencyValue s \<noteq> []"
    by (auto simp add: currencyNames_def)
  have submit: "dispatch Submit s = convertCurrency amount currency s"
    using dispatch_submit_valid [of s] assms(1,2,3,5) nonempty by simp
  let ?t = "convertCurrency amount currency s"
  have idx: "length (pending s) < length (pending ?t)"
    and call: "pending ?t ! length (pending s) = (amount, currency)"
    by (simp_all add: convertCurrency_pending)
  have "run [Submit, Settle (length (pending s))
               (Response True status (Data (Some (latest # older)))) libOk] s
        = resume (amount, currency) (Response True status (Data (Some (latest # older)))) libOk
            (?t\<lparr>pending := without (length (pending s)) (pending ?t)\<rparr>)"
    by (simp only: run_Cons run_Nil submit dispatch_settle [OF idx] call)
  then have main: "rendered = formatConvertedAmount (jsdiv amount (valor latest)) currency"
    by (simp add: assms(6) resume_converted)
  have same: "\<forall>c. calculateConversion amount (valor latest) c = jsdiv amount (valor latest)"
    by (simp add: calculateConversion_def)
  have positive: "0 < a" if "amount = Fin a" for a
    using assms(1) that by (simp add: greaterZero_def)
  have rounded: "rendered = formatConvertedAmount (roundDouble (a / r)) currency"
    if "amount = Fin a" "valor latest = Fin r" "r \<noteq> 0" for a r
    using main that positive [OF that(1)] by (simp add: jsdiv_finite)
  have accurate: "\<exists>v. rendered = formatConvertedAmount (Fin v) currency
      \<and> \<bar>v - a / r\<bar> \<le> \<bar>a / r\<bar> / 2 ^ 53"
    if "amount = Fin a" "valor latest = Fin r"
      "pow2 (- 1022) \<le> \<bar>a / r\<bar>" "\<bar>a / r\<bar> \<le> pow2 1023" for a r
  proof -
    from that(3) pow2_pos [of "- 1022"] have "r \<noteq> 0" by auto
    from rounded [OF that(1,2) this] roundDouble_accurate [OF that(3,4)]
    show ?thesis by auto
  qed
  have zero: "rendered = formatConvertedAmount PosInf currency"
    if "amount = Fin a" "valor latest = Fin 0" for a
    using main that positive [OF that(1)] by (simp add: jsdiv_by_zero)
  have negzero: "rendered = formatConvertedAmount NegInf currency"
    if "amount = Fin a" "valor latest = NegZero" for a
    using main that positive [OF that(1)] by (simp add: jsdiv_by_zero)
  from main same rounded accurate zero negzero show ?thesis by blast
qed

theorem conversion_divides_witness:
  "greaterZero (Fin 1000)
   \<and> pow2 (- 1022) \<le> \<bar>1000 / 900 :: rat\<bar> \<and> \<bar>1000 / 900 :: rat\<bar> \<le> pow2 1023
   \<and> convertedAmountText (run exampleConversion initial)
     = [Chars ''USD'', Chars '' '', EsCLNumber (Fin (2501999792983609 / 2251799813685248)) 2]
   \<and> \<bar>2501999792983609 / 2251799813685248 - 1000 / 900 :: rat\<bar> \<le> \<bar>1000 / 900\<bar> / 2 ^ 53"
  using conversion_divides [of "Fin 1000" "run [InputAmount ''1000'', ChangeCurrency ''dolar''] initial"
      "''dolar''" "convertedAmountText (run exampleConversion initial)" 200
      "\<lparr>fecha = ''2024-01-03'', valor = Fin 900\<rparr>"
      "[\<lparr>fecha = ''2024-01-02'', valor = Fin 890\<rparr>, \<lparr>fecha = ''2024-01-01'', valor = Fin 880\<rparr>]" True]
  by (simp add: exampleConversion_def exampleSubmission_def exampleSerie_def run_Cons run_Nil
        dispatch_def currencyChanged_def initial_def helper_defs parse_defs greaterZero_def
        currencyNames_def formatConvertedAmount_def getCurrencySymbol_def getProp_def
        symbols_def formatNumber_def templateText_def pow2_def jsdiv_example
        handleConversion_def convertCurrency_def Let_def truthy_def lessEqZero_def resume_def
        tryBody_def createChart_def without_def calculateConversion_def)

subsection \<open>C2: validation\<close>

text \<open>
  C2. When the amount does not parse to a number or parses to a value that is not
  positive, or when the currency code is empty, \<open>handleConversion\<close> issues no request and
  suspends no call: all it does is show one of the two validation messages.
\<close>

theorem validation_rejects:
  assumes "parseFloat (amountValue s) = NaN \<or> lessEqZero (parseFloat (amountValue s))
           \<or> currencyValue s = []"
  shows "requests (handleConversion s) = requests s
       \<and> pending (handleConversion s) = pending s
       \<and> \<not> errorHidden (handleConversion s)
       \<and> errorText (handleConversion s) \<in> {msgInvalidAmount, msgNoCurrency}
       \<and> handleConversion s = showError (errorText (handleConversion s)) s"
  using assms
  by (auto simp add: handleConversion_def Let_def showError_def truthy_def)

theorem validation_rejects_witness:
  "parseFloat ''abc'' = NaN \<and> lessEqZero (parseFloat ''-5'') \<and> parseFloat ''1e-400'' = Fin 0
   \<and> requests (handleConversion (initial\<lparr>amountValue := ''1e-400'', currencyValue := ''euro''\<rparr>))
       = []
   \<and> errorText (handleConversion (initial\<lparr>amountValue := ''1e-400'', currencyValue := ''euro''\<rparr>))
       = msgInvalidAmount
   \<and> requests (handleConversion (initial\<lparr>amountValue := ''abc'', currencyValue := ''euro''\<rparr>)) = []
   \<and> errorText (handleConversion (initial\<lparr>amountValue := ''abc'', currencyValue := ''euro''\<rparr>))
       = msgInvalidAmount
   \<and> requests (handleConversion (initial\<lparr>amountValue := ''-5'', currencyValue := ''euro''\<rparr>)) = []
   \<and> \<not> errorHidden (handleConversion (initial\<lparr>amountValue := ''-5'', currencyValue := ''euro''\<rparr>))
   \<and> requests (handleConversion (initial\<lparr>amountValue := ''7'', currencyValue := []\<rparr>)) = []
   \<and> errorText (handleConversion (initial\<lparr>amountValue := ''7'', currencyValue := []\<rparr>))
       = msgNoCurrency"
  using validation_rejects [of "initial\<lparr>amountValue := ''abc'', currencyValue := ''euro''\<rparr>"]
    validation_rejects [of "initial\<lparr>amountValue := ''-5'', currencyValue := ''euro''\<rparr>"]
    validation_rejects [of "initial\<lparr>amountValue := ''7'', currencyValue := []\<rparr>"]
    validation_rejects [of "initial\<lparr>amountValue := ''1e-400'', currencyValue := ''euro''\<rparr>"]
  by (simp add: initial_def parse_defs lessEqZero_def truthy_def handleConversion_def Let_def
        showError_def)


subsection \<open>C3: the points of the chart\<close>





subsection \<open>C4: one message for every failure\<close>

lemma resume_failing:
  "failing out \<Longrightarrow>
   \<exists>e. resume call out libOk s = catchFinally (Some e, s)"
  by (auto simp add: failing_def resume_def tryBody_def
        split: outcome.splits body.splits option.splits list.splits)

text \<open>
  C4. In every reachable state, when a suspended call is resumed with a failing outcome (a
  status that is not a success, or a body whose \<open>serie\<close> is absent or empty, and also a
  rejected \<open>fetch\<close> or an unreadable body), the error region is shown with the one generic
  message and the result and chart regions stay hidden. Two failing outcomes leave the
  same page: only the console tells them apart.
\<close>

theorem failure_is_generic:
  assumes "failing out" "failing out'" "i < length (pending (run evs initial))"
  shows "\<not> errorHidden (dispatch (Settle i out libOk) (run evs initial))
       \<and> errorText (dispatch (Settle i out libOk) (run evs initial)) = msgConversionError
       \<and> resultHidden (dispatch (Settle i out libOk) (run evs initial))
       \<and> chartHidden (dispatch (Settle i out libOk) (run evs initial))
       \<and> (dispatch (Settle i out libOk) (run evs initial))\<lparr>console := []\<rparr>
           = (dispatch (Settle i out' libOk') (run evs initial))\<lparr>console := []\<rparr>"
proof -
  let ?s = "run evs initial"
  let ?t = "?s\<lparr>pending := without i (pending ?s)\<rparr>"
  have wf: "wellFormed ?s" by (rule wellFormed_reachable)
  with assms(3) have hidden: "resultHidden ?s" "chartHidden ?s"
    by (auto simp add: wellFormed_def)
  from resume_failing [OF assms(1), of "pending ?s ! i" libOk ?t]
  obtain e where "resume (pending ?s ! i) out libOk ?t = catchFinally (Some e, ?t)"
    by blast
  then have e: "dispatch (Settle i out libOk) ?s = catchFinally (Some e, ?t)"
    using assms(3) by (simp add: dispatch_settle)
  from resume_failing [OF assms(2), of "pending ?s ! i" libOk' ?t]
  obtain e' where "resume (pending ?s ! i) out' libOk' ?t = catchFinally (Some e', ?t)"
    by blast
  then have e': "dispatch (Settle i out' libOk') ?s = catchFinally (Some e', ?t)"
    using assms(3) by (simp add: dispatch_settle)
  show ?thesis
    unfolding e e' using hidden by (simp add: helper_defs)
qed

theorem failure_is_generic_witness:
  "failing (Response False 500 Unparseable) \<and> failing (Response True 200 (Data None))
   \<and> errorText (dispatch (Settle 0 (Response False 500 Unparseable) True)
        (run exampleSubmission initial)) = msgConversionError
   \<and> resultHidden (dispatch (Settle 0 (Response False 500 Unparseable) True)
        (run exampleSubmission initial))
   \<and> (dispatch (Settle 0 (Response False 500 Unparseable) True)
        (run exampleSubmission initial))\<lparr>console := []\<rparr>
       = (dispatch (Settle 0 (Response True 200 (Data None)) True)
           (run exampleSubmission initial))\<lparr>console := []\<rparr>"
proof -
  have f1: "failing (Response False 500 Unparseable)"
    and f2: "failing (Response True 200 (Data None))"
    by (simp_all add: failing_def)
  have p: "pending (run exampleSubmission initial) = [(Fin 1000, ''dolar'')]"
    by (simp add: exampleSubmission_def run_Cons run_Nil dispatch_def currencyChanged_def
          initial_def helper_defs handleConversion_def convertCurrency_def Let_def parse_defs
          truthy_def lessEqZero_def)
  then have i: "0 < length (pending (run exampleSubmission initial))" by simp
  from failure_is_generic [OF f1 f2 i, of True True] f1 f2 show ?thesis by simp
qed

subsection \<open>C5: the loading indicator\<close>

text \<open>
  C5. Whatever the outcome with which a suspended call is resumed, and whether or not the
  charting library throws, afterwards the loading region is hidden, the submit button is
  enabled and the call is no longer suspended.
\<close>

theorem loading_cleared:
  assumes "i < length (pending s)"
  shows "loadingHidden (dispatch (Settle i out libOk) s)
       \<and> \<not> convertBtnDisabled (dispatch (Settle i out libOk) s)
       \<and> pending (dispatch (Settle i out libOk) s) = without i (pending s)"
proof -
  obtain r where r: "tryBody (fst (pending s ! i)) (snd (pending s ! i)) out libOk
      (s\<lparr>pending := without i (pending s)\<rparr>) = r" by simp
  have "pending (snd r) = without i (pending s)"
    using r [symmetric]
    by (cases "currencyChart s")
       (auto simp add: tryBody_def createChart_def Let_def helper_defs
          split: outcome.splits body.splits option.splits list.splits)
  then show ?thesis
    using assms r
    by (simp add: dispatch_settle resume_def catchFinally_def hideLoading_def showError_def
          split: option.splits)
qed


theorem loading_cleared_witness:
  "loadingHidden (dispatch (Settle 0 (Response True 200 (Data (Some exampleSerie))) True)
       (run exampleSubmission initial))
   \<and> \<not> convertBtnDisabled (dispatch (Settle 0 (Response False 500 Unparseable) True)
       (run exampleSubmission initial))
   \<and> loadingHidden (dispatch (Settle 0 (Response True 200 (Data (Some []))) True)
       (run exampleSubmission initial))
   \<and> loadingHidden (dispatch (Settle 0 (Response True 200 (Data (Some exampleSerie))) False)
       (run exampleSubmission initial))"
proof -
  have "pending (run exampleSubmission initial) = [(Fin 1000, ''dolar'')]"
    by (simp add: exampleSubmission_def run_Cons run_Nil dispatch_def currencyChanged_def
          initial_def helper_defs handleConversion_def convertCurrency_def Let_def parse_defs
          truthy_def lessEqZero_def)
  then have i: "0 < length (pending (run exampleSubmission initial))" by simp
  from loading_cleared [OF i, of "Response True 200 (Data (Some exampleSerie))" True]
    loading_cleared [OF i, of "Response False 500 Unparseable" True]
    loading_cleared [OF i, of "Response True 200 (Data (Some []))" True]
    loading_cleared [OF i, of "Response True 200 (Data (Some exampleSerie))" False]
  show ?thesis by simp
qed


subsection \<open>C6: the rendered amount and the currency symbol\<close>

lemma formatConvertedAmount_units:
  "formatConvertedAmount amount ''uf'' = formatNumber amount 4 @ [Chars '' '', Chars ''UF'']"
  "formatConvertedAmount amount ''utm'' = formatNumber amount 4 @ [Chars '' '', Chars ''UTM'']"
  by (simp_all add: formatConvertedAmount_def getCurrencySymbol_def getProp_def symbols_def
        templateText_def)

lemma formatConvertedAmount_others:
  "currency \<noteq> ''uf'' \<Longrightarrow> currency \<noteq> ''utm'' \<Longrightarrow>
   formatConvertedAmount amount currency
     = templateText (getCurrencySymbol currency) @ [Chars '' ''] @ formatNumber amount 2"
  by (simp add: formatConvertedAmount_def)

lemma getCurrencySymbol_fallback:
  "currency \<notin> set (map fst symbols) \<Longrightarrow> currency \<notin> set objectPrototype \<Longrightarrow>
   getCurrencySymbol currency = Val (toUpperCase currency)"
  by (simp add: getCurrencySymbol_def getProp_def map_of_eq_None_iff [THEN iffD2])

text \<open>
  C6. The two unit currencies are rendered as the number with four fraction digits, a
  space and the symbol, every other code as the symbol, a space and the number with two
  fraction digits (the three lemmas above). The fallback to the uppercased code misses
  the codes that name a member of \<open>Object.prototype\<close>: for \<open>constructor\<close> the lookup in
  \<open>symbols\<close> finds the inherited member, which is truthy, so the symbol is that member and
  the rendered amount starts with its string conversion instead of \<open>CONSTRUCTOR\<close>.
\<close>

theorem symbol_of_inherited_name:
  "getCurrencySymbol ''constructor'' = ProtoMember ''constructor''
   \<and> toUpperCase ''constructor'' = ''CONSTRUCTOR''
   \<and> getCurrencySymbol ''constructor'' \<noteq> Val (toUpperCase ''constructor'')
   \<and> formatConvertedAmount (Fin 1) ''constructor''
       = [NativeText ''constructor'', Chars '' '', EsCLNumber (Fin 1) 2]
   \<and> getCurrencySymbol ''gbp'' = Val ''GBP''"
  by (simp add: getCurrencySymbol_def getProp_def symbols_def objectPrototype_def
        formatConvertedAmount_def templateText_def formatNumber_def toUpperCase_def
        upperChar_def lowerLetters_def upperLetters_def)

subsection \<open>C7: the chart instance\<close>

lemmas eval_defs =
  run_Cons run_Nil dispatch_def currencyChanged_def clearForm_def initial_def helper_defs
  handleConversion_def convertCurrency_def Let_def parse_defs truthy_def lessEqZero_def
  resume_def tryBody_def createChart_def without_def calculateConversion_def
  exampleSubmission_def exampleConversion_def exampleSerie_def

lemma example_page:
  "map fst (charts (run exampleConversion initial)) = [0]"
  "currencyChart (run exampleConversion initial) = Some 0"
  "\<not> chartHidden (run exampleConversion initial)"
  "\<not> resultHidden (run exampleConversion initial)"
  "errorHidden (run exampleConversion initial)"
  "pending (run exampleConversion initial) = []"
  "\<not> convertBtnDisabled (run exampleConversion initial)"
  by (simp_all add: eval_defs)

lemma run_append: "run (evs @ evs') s = run evs' (run evs s)"
  by (simp add: run_def)

text \<open>
  C7, as stated, fails: after the conversion of the example, editing the amount leaves
  chart instance 0 alive and shown, and a new request that fails leaves it alive too.
\<close>

theorem chart_survives_edit:
  "map fst (charts (run (exampleConversion @ [InputAmount ''2000'']) initial)) = [0]
   \<and> currencyChart (run (exampleConversion @ [InputAmount ''2000'']) initial) = Some 0
   \<and> \<not> chartHidden (run (exampleConversion @ [InputAmount ''2000'']) initial)
   \<and> map fst (charts (run (exampleConversion
        @ [InputAmount ''2000'', Submit, Settle 0 (Response False 500 Unparseable) True])
        initial)) = [0]"
  by (simp add: eval_defs)


lemma tryBody_failing_charts:
  "failing out \<Longrightarrow> charts (snd (tryBody a c out libOk s)) = charts s
     \<and> currencyChart (snd (tryBody a c out libOk s)) = currencyChart s"
  by (auto simp add: failing_def tryBody_def
        split: outcome.splits body.splits option.splits list.splits)

lemma catchFinally_charts:
  "charts (catchFinally r) = charts (snd r)"
  "currencyChart (catchFinally r) = currencyChart (snd r)"
  by (simp_all add: catchFinally_def hideLoading_def showError_def split: option.splits)

lemma resume_success_charts:
  assumes "wellFormed s"
  shows "map fst (charts (resume call (Response True status (Data (Some (x # xs)))) True
            (s\<lparr>pending := p\<rparr>))) = [created s]
       \<and> currencyChart (resume call (Response True status (Data (Some (x # xs)))) True
            (s\<lparr>pending := p\<rparr>)) = Some (created s)"
  using assms
  by (cases "currencyChart s")
     (auto simp add: wellFormed_def resume_def tryBody_def createChart_def Let_def
        helper_defs)

lemma wellFormed_fresh: "wellFormed s \<Longrightarrow> created s \<notin> fst ` set (charts s)"
  by (cases "currencyChart s"; cases "charts s") (auto simp add: wellFormed_def)

lemma wellFormed_clearChart_empty:
  "wellFormed s \<Longrightarrow> charts (clearChart s) = [] \<and> currencyChart (clearChart s) = None"
  by (cases "currencyChart s") (auto simp add: wellFormed_def clearChart_def destroy_def)

lemma wellFormed_hidden:
  "wellFormed s \<Longrightarrow> wellFormed (hideChart (hideError (s\<lparr>currencyValue := v\<rparr>)))"
  "wellFormed s \<Longrightarrow>
   wellFormed (hideChart (hideError (hideResult (s\<lparr>amountValue := [], currencyValue := []\<rparr>))))"
  by (auto simp add: wellFormed_def helper_defs)

text \<open>
  C7, amended. In every reachable state at most one chart instance is alive. A conversion
  that succeeds leaves exactly one instance alive, a new one under a number no live
  instance had, to which \<open>currencyChart\<close> refers; changing the currency selection and
  clearing the form destroy the instance without a replacement; editing the amount,
  submitting the form and a request that fails leave the instances as they are.
\<close>

theorem chart_discipline:
  "length (charts (run evs initial)) \<le> 1
   \<and> (i < length (pending (run evs initial)) \<longrightarrow>
        map fst (charts (dispatch (Settle i (Response True status (Data (Some (x # xs)))) True)
           (run evs initial))) = [created (run evs initial)]
        \<and> currencyChart (dispatch (Settle i (Response True status (Data (Some (x # xs)))) True)
           (run evs initial)) = Some (created (run evs initial))
        \<and> created (run evs initial) \<notin> fst ` set (charts (run evs initial)))
   \<and> charts (dispatch (ChangeCurrency v) (run evs initial)) = []
   \<and> currencyChart (dispatch (ChangeCurrency v) (run evs initial)) = None
   \<and> charts (dispatch ClearForm (run evs initial)) = []
   \<and> charts (dispatch (InputAmount v) (run evs initial)) = charts (run evs initial)
   \<and> currencyChart (dispatch (InputAmount v) (run evs initial)) = currencyChart (run evs initial)
   \<and> charts (dispatch Submit (run evs initial)) = charts (run evs initial)
   \<and> (failing out \<longrightarrow>
        charts (dispatch (Settle i out libOk) (run evs initial)) = charts (run evs initial))"
proof -
  let ?r = "run evs initial"
  have wf: "wellFormed ?r" by (rule wellFormed_reachable)
  have one: "length (charts ?r) \<le> 1"
    using wf by (cases "charts ?r") (auto simp add: wellFormed_def)
  have success: "i < length (pending ?r) \<longrightarrow>
        map fst (charts (dispatch (Settle i (Response True status (Data (Some (x # xs)))) True)
           ?r)) = [created ?r]
        \<and> currencyChart (dispatch (Settle i (Response True status (Data (Some (x # xs)))) True)
           ?r) = Some (created ?r)
        \<and> created ?r \<notin> fst ` set (charts ?r)"
    using resume_success_charts [OF wf] wellFormed_fresh [OF wf]
    by (simp add: dispatch_settle)
  have change: "charts (dispatch (ChangeCurrency v) ?r) = []
      \<and> currencyChart (dispatch (ChangeCurrency v) ?r) = None"
    using wellFormed_clearChart_empty [OF wellFormed_hidden(1) [OF wf]]
    by (simp add: dispatch_def currencyChanged_def)
  have clear: "charts (dispatch ClearForm ?r) = []"
    using wellFormed_clearChart_empty [OF wellFormed_hidden(2) [OF wf]]
    by (simp add: dispatch_def clearForm_def)
  have edit: "charts (dispatch (InputAmount v) ?r) = charts ?r
      \<and> currencyChart (dispatch (InputAmount v) ?r) = currencyChart ?r"
    by (simp add: dispatch_def hideError_def)
  have submit: "charts (dispatch Submit ?r) = charts ?r"
    by (simp add: dispatch_def handleConversion_def convertCurrency_def Let_def helper_defs)
  have failed: "failing out \<longrightarrow> charts (dispatch (Settle i out libOk) ?r) = charts ?r"
    by (cases "i < length (pending ?r)")
       (simp_all add: dispatch_def resume_def catchFinally_charts tryBody_failing_charts)
  from one success change clear edit submit failed show ?thesis by simp
qed

theorem chart_discipline_witness:
  "failing (Response False 500 Unparseable)
   \<and> map fst (charts (run (exampleConversion @ [Submit,
        Settle 0 (Response True 200 (Data (Some exampleSerie))) True]) initial)) = [1]
   \<and> 1 \<notin> fst ` set (charts (run (exampleConversion @ [Submit]) initial))
   \<and> charts (run (exampleConversion @ [Submit, Settle 0 (Response False 500 Unparseable) True])
        initial) = charts (run (exampleConversion @ [Submit]) initial)
   \<and> charts (run (exampleConversion @ [Submit, ChangeCurrency ''euro'']) initial) = []"
proof -
  have f: "failing (Response False 500 Unparseable)"
    by (simp add: failing_def)
  have p: "pending (run (exampleConversion @ [Submit]) initial) = [(Fin 1000, ''dolar'')]"
    and c: "created (run (exampleConversion @ [Submit]) initial) = 1"
    by (simp_all add: eval_defs)
  from chart_discipline [of "exampleConversion @ [Submit]" 0 200 "hd exampleSerie"
      "tl exampleSerie" "''euro''" "Response False 500 Unparseable" True] f p c
  show ?thesis
    by (simp add: run_snoc [of "exampleConversion @ [Submit]", simplified] exampleSerie_def)
qed


subsection \<open>C8: which regions are visible\<close>




subsection \<open>C9: the two versions\<close>

lemma sameCore_dispatch:
  assumes "sameCore s t"
  shows "sameCore (dispatch ev s) (dispatch_script ev t)"
proof (cases ev)
  case (InputAmount v)
  with assms show ?thesis
    by (simp add: sameCore_def dispatch_def dispatch_script_def hideError_def)
next
  case (ChangeCurrency v)
  with assms show ?thesis
    by (simp add: sameCore_def dispatch_def dispatch_script_def currencyChanged_def
          helper_defs split: option.splits)
next
  case Submit
  with assms show ?thesis
    by (simp add: sameCore_def dispatch_def dispatch_script_def handleConversion_def
          handleConversion_script_def convertCurrency_def convertCurrency_script_def Let_def
          helper_defs)
next
  case (Settle i out libOk)
  with assms show ?thesis
    by (cases "currencyChart s")
       (auto simp add: sameCore_def dispatch_def dispatch_script_def resume_def
          resume_script_def tryBody_def tryBody_script_def createChart_def Let_def helper_defs
          split: outcome.splits body.splits option.splits list.splits)
next
  case ClearForm
  with assms show ?thesis
    by (simp add: sameCore_def dispatch_def dispatch_script_def clearForm_def
          clearForm_script_def helper_defs split: option.splits)
qed

lemma sameMessages_dispatch:
  assumes "sameCore s t" "sameMessages s t" "libraryWorks ev"
  shows "sameMessages (dispatch ev s) (dispatch_script ev t)"
proof (cases ev)
  case (InputAmount v)
  with assms show ?thesis
    by (simp add: sameMessages_def dispatch_def dispatch_script_def hideError_def)
next
  case (ChangeCurrency v)
  with assms show ?thesis
    by (simp add: sameMessages_def dispatch_def dispatch_script_def currencyChanged_def
          helper_defs split: option.splits)
next
  case Submit
  with assms show ?thesis
    by (simp add: sameCore_def sameMessages_def dispatch_def dispatch_script_def
          handleConversion_def handleConversion_script_def convertCurrency_def
          convertCurrency_script_def Let_def helper_defs)
next
  case (Settle i out libOk)
  with assms show ?thesis
    by (cases "currencyChart s")
       (auto simp add: sameCore_def sameMessages_def libraryWorks_def dispatch_def
          dispatch_script_def resume_def resume_script_def tryBody_def tryBody_script_def
          createChart_def Let_def helper_defs
          split: outcome.splits body.splits option.splits list.splits)
next
  case ClearForm
  with assms show ?thesis
    by (simp add: sameMessages_def dispatch_def dispatch_script_def clearForm_def
          clearForm_script_def helper_defs split: option.splits)
qed

lemma sameCore_run: "sameCore (run evs initial) (run_script evs initial_script)"
proof (induction evs rule: rev_induct)
  case Nil
  show ?case
    by (simp add: run_Nil run_script_Nil sameCore_def initial_def initial_script_def)
next
  case (snoc ev evs)
  then show ?case
    by (simp add: run_snoc run_script_snoc sameCore_dispatch)
qed

lemma sameMessages_run:
  "\<forall>ev \<in> set evs. libraryWorks ev \<Longrightarrow>
   sameMessages (run evs initial) (run_script evs initial_script)"
proof (induction evs rule: rev_induct)
  case Nil
  show ?case
    by (simp add: run_Nil run_script_Nil sameMessages_def initial_def initial_script_def)
next
  case (snoc ev evs)
  then show ?case
    by (simp add: run_snoc run_script_snoc sameMessages_dispatch sameCore_run)
qed

text \<open>
  C9. Started on the freshly loaded page and given the same events, the two versions agree
  at every moment on the form, the button, the loading and result regions, the five
  rendered result fields, the suspended calls and the requests issued: the same validation
  decisions and the same converted amount. They agree on the error region and the console
  as well as long as the charting library does not throw.
\<close>

theorem versions_agree:
  "sameCore (run evs initial) (run_script evs initial_script)
   \<and> ((\<forall>ev \<in> set evs. libraryWorks ev) \<longrightarrow>
        sameMessages (run evs initial) (run_script evs initial_script))"
  by (simp add: sameCore_run sameMessages_run)

lemmas eval_script_defs =
  run_script_Cons run_script_Nil dispatch_script_def initial_script_def
  handleConversion_script_def convertCurrency_script_def resume_script_def tryBody_script_def
  clearForm_script_def

theorem versions_agree_witness:
  "convertedAmountText (run_script (exampleConversion @ [InputAmount ''0'', Submit])
        initial_script) = [Chars ''USD'', Chars '' '', EsCLNumber (Fin (2501999792983609 / 2251799813685248)) 2]
   \<and> convertedAmountText (run (exampleConversion @ [InputAmount ''0'', Submit]) initial)
       = [Chars ''USD'', Chars '' '', EsCLNumber (Fin (2501999792983609 / 2251799813685248)) 2]
   \<and> errorText (run_script (exampleConversion @ [InputAmount ''0'', Submit]) initial_script)
       = msgInvalidAmount
   \<and> errorText (run (exampleConversion @ [InputAmount ''0'', Submit]) initial)
       = msgInvalidAmount"
proof -
  have w: "\<forall>ev \<in> set (exampleConversion @ [InputAmount ''0'', Submit]). libraryWorks ev"
    by (simp add: exampleConversion_def exampleSubmission_def libraryWorks_def)
  have v: "convertedAmountText (run_script (exampleConversion @ [InputAmount ''0'', Submit])
        initial_script) = [Chars ''USD'', Chars '' '', EsCLNumber (Fin (2501999792983609 / 2251799813685248)) 2]"
    and e: "errorText (run_script (exampleConversion @ [InputAmount ''0'', Submit])
        initial_script) = msgInvalidAmount"
    by (simp_all add: eval_defs eval_script_defs formatConvertedAmount_def
          getCurrencySymbol_def getProp_def symbols_def formatNumber_def templateText_def
          jsdiv_example)
  from versions_agree [of "exampleConversion @ [InputAmount ''0'', Submit]"] w v e
  show ?thesis
    by (simp add: sameCore_def sameMessages_def)
qed

subsection \<open>C10: the amount is read with prefix parsing\<close>

lemma parseFloat_digit_prefix:
  assumes "isDigit c"
  shows "parseFloat (c # rest) \<noteq> NaN"
proof -
  from assms have "\<not> isWhiteSpace c" "c \<noteq> CHR ''-''" "c \<noteq> CHR ''+''" "c \<noteq> CHR ''I''"
    by (auto simp add: isDigit_def isWhiteSpace_def)
  with assms show ?thesis
    by (simp add: parseFloat_def readSign_def Let_def roundDouble_not_NaN negate_not_NaN
          split: prod.splits)
qed

lemma parseFloat_no_prefix:
  assumes "\<not> isDigit c" "\<not> isWhiteSpace c" "c \<notin> {CHR ''+'', CHR ''-'', CHR ''.'', CHR ''I''}"
  shows "parseFloat (c # rest) = NaN"
  using assms
  by (simp add: parseFloat_def readSign_def readFraction_def Let_def split: prod.splits)

text \<open>
  C10. The amount \<open>12abc\<close> is not a numeral, yet \<open>parseFloat\<close> reads its prefix 12:
  validation accepts it, a request is issued and the conversion is carried out on 12, in
  both versions. Only a string without a numeric prefix, such as \<open>abc\<close>, gives \<open>NaN\<close>.
\<close>

theorem prefix_is_accepted:
  "parseFloat ''12abc'' = Fin 12
   \<and> parseFloat ''abc'' = NaN
   \<and> pending (run [InputAmount ''12abc'', ChangeCurrency ''dolar'', Submit] initial)
       = [(Fin 12, ''dolar'')]
   \<and> requests (run [InputAmount ''12abc'', ChangeCurrency ''dolar'', Submit] initial)
       = [''https://mindicador.cl/api/dolar'']
   \<and> errorHidden (run [InputAmount ''12abc'', ChangeCurrency ''dolar'', Submit] initial)
   \<and> convertedAmountText (run [InputAmount ''12abc'', ChangeCurrency ''dolar'', Submit,
        Settle 0 (Response True 200 (Data (Some exampleSerie))) True] initial)
       = formatConvertedAmount (jsdiv (Fin 12) (Fin 900)) ''dolar''
   \<and> requests (run_script [InputAmount ''12abc'', ChangeCurrency ''dolar'', Submit]
        initial_script) = [''https://mindicador.cl/api/dolar'']
   \<and> convertedAmountText (run_script [InputAmount ''12abc'', ChangeCurrency ''dolar'', Submit,
        Settle 0 (Response True 200 (Data (Some exampleSerie))) True] initial_script)
       = formatConvertedAmount (jsdiv (Fin 12) (Fin 900)) ''dolar''"
  by (simp add: eval_defs eval_script_defs API_URL_def)

end
